theory Spec2Isabelle
  imports Complex_Main
begin

section \<open>Python floats\<close>

text \<open>
  A finite Python float is an IEEE binary64 number. \<open>Fl m e\<close> stands for the number
  \<open>m * 2^e\<close>; a float is kept normalised: \<open>m = 0\<close> and \<open>e = 0\<close>, or
  \<open>2^52 \<le> \<bar>m\<bar> < 2^53\<close>. Every float operation of the planner (\<open>+\<close>, \<open>-\<close>,
  \<open>*\<close>, \<open>/\<close>, \<open>math.sqrt\<close>, a decimal literal) is the exact operation followed by
  rounding to the nearest number with a 53-bit significand, ties to even. The exponent
  range of the model is not bounded: the planner only adds and scales step costs,
  distances and risk values, far from overflow and underflow. NaN and the signed zero are
  outside the model; \<open>float('inf')\<close> occurs only as the cost of the no-path result
  and is the constructor \<open>PInf\<close> below.
\<close>

datatype pyfl = Fl int int

definition fl_val :: "pyfl \<Rightarrow> rat" where
  "fl_val x = (case x of Fl m e \<Rightarrow> of_int m * 2 powi e)"

text \<open>Scaling a significand below \<open>2^52\<close> up, and counting the bits above \<open>2^53\<close>.\<close>

function norm_up :: "int \<Rightarrow> int \<Rightarrow> int \<times> int" where
  "norm_up a e =
     (if a \<le> 0 \<or> 4503599627370496 \<le> a then (a, e) else norm_up (2 * a) (e - 1))"
  by pat_completeness auto
termination
  by (relation "measure (\<lambda>(a, e). nat (4503599627370496 - a))") auto

declare norm_up.simps [simp del]

function norm_down :: "int \<Rightarrow> int \<Rightarrow> int \<Rightarrow> int" where
  "norm_down a p k = (if p \<le> 0 \<or> a < p then k else norm_down a (2 * p) (k + 1))"
  by pat_completeness auto
termination
  by (relation "measure (\<lambda>(a, p, k). nat (a + 1 - p))") auto

declare norm_down.simps [simp del]

text \<open>
  \<open>fl_round m e sticky\<close> rounds \<open>m * 2^e\<close> to a float; \<open>sticky\<close> says that the exact
  value lies strictly between \<open>m * 2^e\<close> and the next integer multiple of \<open>2^e\<close> away
  from zero (used by division and square root, which pass at least 54 bits).
\<close>

definition fl_round :: "int \<Rightarrow> int \<Rightarrow> bool \<Rightarrow> pyfl" where
  "fl_round m e sticky =
     (let a = \<bar>m\<bar>
      in if a = 0 then Fl 0 0
         else if a < 4503599627370496 then
           (case norm_up a e of (a', e') \<Rightarrow> Fl (sgn m * a') e')
         else
           let k = norm_down a 9007199254740992 0
           in if k = 0 then Fl m e
              else
                let p = 2 ^ nat k; q = a div p; r = a - q * p; h = p div 2;
                    up = (if r = h then (if sticky then True else q div 2 * 2 \<noteq> q)
                          else h < r);
                    q' = (if up then q + 1 else q)
                in if q' = 9007199254740992
                   then Fl (sgn m * 4503599627370496) (e + k + 1)
                   else Fl (sgn m * q') (e + k))"

text \<open>An integer used as a float.\<close>

definition fl_of_int :: "int \<Rightarrow> pyfl" where
  "fl_of_int n = fl_round n 0 False"

definition fadd :: "pyfl \<Rightarrow> pyfl \<Rightarrow> pyfl" where
  "fadd x y =
     (case x of Fl m1 e1 \<Rightarrow> case y of Fl m2 e2 \<Rightarrow>
        if m1 = 0 then y else if m2 = 0 then x
        else let e = min e1 e2
             in fl_round (m1 * 2 ^ nat (e1 - e) + m2 * 2 ^ nat (e2 - e)) e False)"

definition fsub :: "pyfl \<Rightarrow> pyfl \<Rightarrow> pyfl" where
  "fsub x y = (case y of Fl m2 e2 \<Rightarrow> fadd x (Fl (- m2) e2))"

definition fmul :: "pyfl \<Rightarrow> pyfl \<Rightarrow> pyfl" where
  "fmul x y =
     (case x of Fl m1 e1 \<Rightarrow> case y of Fl m2 e2 \<Rightarrow> fl_round (m1 * m2) (e1 + e2) False)"

text \<open>Division; the planner only divides by the constants \<open>2\<close> and (in literals) \<open>10^k\<close>.\<close>

definition fdiv :: "pyfl \<Rightarrow> pyfl \<Rightarrow> pyfl" where
  "fdiv x y =
     (case x of Fl m1 e1 \<Rightarrow> case y of Fl m2 e2 \<Rightarrow>
        let n = \<bar>m1\<bar> * 36028797018963968
        in fl_round (sgn m1 * sgn m2 * (n div \<bar>m2\<bar>)) (e1 - e2 - 55) (n mod \<bar>m2\<bar> \<noteq> 0))"

text \<open>A decimal literal \<open>p / q\<close>, such as \<open>1.414 = 1414 / 1000\<close>.\<close>

definition fl_literal :: "int \<Rightarrow> int \<Rightarrow> pyfl" where
  "fl_literal p q = fdiv (fl_of_int p) (fl_of_int q)"

text \<open>The comparisons \<open><\<close> and \<open>>=\<close> of two floats.\<close>

definition flt :: "pyfl \<Rightarrow> pyfl \<Rightarrow> bool" where
  "flt x y =
     (case x of Fl m1 e1 \<Rightarrow> case y of Fl m2 e2 \<Rightarrow>
        let e = min e1 e2 in m1 * 2 ^ nat (e1 - e) < m2 * 2 ^ nat (e2 - e))"

definition fge :: "pyfl \<Rightarrow> pyfl \<Rightarrow> bool" where
  "fge x y = (\<not> flt x y)"

text \<open>Integer square root, rounded down, by Newton's iteration from a start above it.\<close>

function isqrt_newton :: "int \<Rightarrow> int \<Rightarrow> int" where
  "isqrt_newton n x =
     (if x \<le> 0 then 0
      else let y = (x + n div x) div 2 in if y < x then isqrt_newton n y else x)"
  by pat_completeness auto
termination
  by (relation "measure (\<lambda>(n, x). nat x)") auto

declare isqrt_newton.simps [simp del]

text \<open>
  \<open>math.sqrt\<close>: the correctly rounded square root. The significand is scaled to an
  integer \<open>N\<close> of 107 or 108 bits with an even exponent, so that its integer square
  root has 54 bits; the planner only takes roots of sums of squares, which are not
  negative.
\<close>

definition fsqrt :: "pyfl \<Rightarrow> pyfl" where
  "fsqrt x =
     (case x of Fl m e \<Rightarrow>
        if m \<le> 0 then Fl 0 0
        else let p = (if e mod 2 = 0 then 54 else 55);
                 N = m * 2 ^ nat p;
                 r = isqrt_newton N 18014398509481984
             in fl_round r ((e - p) div 2) (r * r \<noteq> N))"

text \<open>The cost component of a result: a finite float or \<open>float('inf')\<close>.\<close>

datatype pyfloat = Finite pyfl | PInf

text \<open>
  \<open>round(x, 2)\<close>: the exact value is rounded to two decimals, ties to even, and the
  decimal is read back as a float; \<open>round(float('inf'), 2)\<close> is \<open>float('inf')\<close>.
\<close>

definition round_half_even_div :: "int \<Rightarrow> int \<Rightarrow> int" where
  "round_half_even_div n d =
     (let q = n div d; r = n mod d
      in if 2 * r < d then q else if d < 2 * r then q + 1
         else if q mod 2 = 0 then q else q + 1)"

definition round2 :: "pyfloat \<Rightarrow> pyfloat" where
  "round2 x =
     (case x of
        PInf \<Rightarrow> PInf
      | Finite (Fl m e) \<Rightarrow>
          Finite (fl_literal
            (if 0 \<le> e then m * 100 * 2 ^ nat e else round_half_even_div (m * 100) (2 ^ nat (- e)))
            100))"

section \<open>Errors and positions\<close>

datatype error = IndexError

text \<open>
  A position \<open>[x, y]\<close> is a pair of Python integers; \<open>x\<close> indexes the rows of the grid
  and \<open>y\<close> the columns. The blocked list becomes the set \<open>blocked_set\<close> of pairs.
\<close>

type_synonym pos = "int \<times> int"

text \<open>Python's \<open>xs[i]\<close>: a negative index counts from the end, out of range raises.\<close>

definition py_get :: "'a list \<Rightarrow> int \<Rightarrow> error + 'a" where
  "py_get xs i =
     (if 0 \<le> i \<and> i < int (length xs) then Inr (xs ! nat i)
      else if i < 0 \<and> - int (length xs) \<le> i then Inr (xs ! nat (int (length xs) + i))
      else Inl IndexError)"

text \<open>\<open>m[x][y]\<close> on a list of lists.\<close>

definition py_get2 :: "'a list list \<Rightarrow> int \<Rightarrow> int \<Rightarrow> error + 'a" where
  "py_get2 m x y = (case py_get m x of Inl e \<Rightarrow> Inl e | Inr row \<Rightarrow> py_get row y)"

section \<open>Search nodes and the priority queue\<close>

text \<open>
  A \<open>Node\<close> object is created once per position and registered in \<open>all_nodes\<close> under
  that position; the open set holds references to these objects, and the search
  assigns to their fields while they sit in the queue. A reference is therefore the
  position itself, and the fields live in the store \<open>all_nodes\<close>.
\<close>

record node =
  node_g :: pyfl
  node_h :: pyfl
  node_f :: pyfl
  node_parent :: "pos option"

text \<open>
  Reading through a reference. Every reference the search holds is registered in the
  store; for an unregistered position the fields are those of a fresh \<open>Node(x, y)\<close>.
\<close>

definition deref :: "(pos \<rightharpoonup> node) \<Rightarrow> pos \<Rightarrow> node" where
  "deref nodes p =
     (case nodes p of
        Some n \<Rightarrow> n
      | None \<Rightarrow> \<lparr>node_g = Fl 0 0, node_h = Fl 0 0, node_f = Fl 0 0, node_parent = None\<rparr>)"

text \<open>\<open>Node.__lt__\<close>: the comparison reads the fields as they are now.\<close>

definition node_lt :: "(pos \<rightharpoonup> node) \<Rightarrow> pos \<Rightarrow> pos \<Rightarrow> bool" where
  "node_lt nodes a b = flt (node_f (deref nodes a)) (node_f (deref nodes b))"

text \<open>
  The functions of Python's \<open>heapq\<close> module on a list, with the comparison \<open>lt\<close> of
  its items: \<open>_siftdown\<close>, \<open>_siftup\<close>, \<open>heappush\<close>, \<open>heappop\<close>.
\<close>

function siftdown_loop :: "('a \<Rightarrow> 'a \<Rightarrow> bool) \<Rightarrow> 'a list \<Rightarrow> nat \<Rightarrow> nat \<Rightarrow> 'a \<Rightarrow> 'a list" where
  "siftdown_loop lt heap startpos pos newitem =
     (if startpos < pos then
        let parentpos = (pos - 1) div 2;
            parent = heap ! parentpos
        in if lt newitem parent
           then siftdown_loop lt (heap[pos := parent]) startpos parentpos newitem
           else heap[pos := newitem]
      else heap[pos := newitem])"
  by pat_completeness auto
termination
  by (relation "measure (\<lambda>(lt, heap, startpos, pos, newitem). pos)") auto

declare siftdown_loop.simps [simp del]

definition siftdown :: "('a \<Rightarrow> 'a \<Rightarrow> bool) \<Rightarrow> 'a list \<Rightarrow> nat \<Rightarrow> nat \<Rightarrow> 'a list" where
  "siftdown lt heap startpos pos = siftdown_loop lt heap startpos pos (heap ! pos)"

function siftup_loop :: "('a \<Rightarrow> 'a \<Rightarrow> bool) \<Rightarrow> 'a list \<Rightarrow> nat \<Rightarrow> 'a list \<times> nat" where
  "siftup_loop lt heap pos =
     (let endpos = length heap;
          childpos = 2 * pos + 1
      in if childpos < endpos then
           let rightpos = childpos + 1;
               childpos = (if rightpos < endpos \<and> \<not> lt (heap ! childpos) (heap ! rightpos)
                           then rightpos else childpos)
           in siftup_loop lt (heap[pos := heap ! childpos]) childpos
         else (heap, pos))"
  by pat_completeness auto
termination
  by (relation "measure (\<lambda>(lt, heap, pos). length heap - pos)") auto

declare siftup_loop.simps [simp del]

definition siftup :: "('a \<Rightarrow> 'a \<Rightarrow> bool) \<Rightarrow> 'a list \<Rightarrow> nat \<Rightarrow> 'a list" where
  "siftup lt heap pos =
     (let newitem = heap ! pos;
          (heap', pos') = siftup_loop lt heap pos
      in siftdown lt (heap'[pos' := newitem]) pos pos')"

definition heappush :: "('a \<Rightarrow> 'a \<Rightarrow> bool) \<Rightarrow> 'a list \<Rightarrow> 'a \<Rightarrow> 'a list" where
  "heappush lt heap item = siftdown lt (heap @ [item]) 0 (length heap)"

text \<open>\<open>heappop\<close> is only called on a non-empty list (the loop test \<open>while open_set\<close>).\<close>

definition heappop :: "('a \<Rightarrow> 'a \<Rightarrow> bool) \<Rightarrow> 'a list \<Rightarrow> 'a \<times> 'a list" where
  "heappop lt heap =
     (let lastelt = last heap;
          heap' = butlast heap
      in if heap' \<noteq> [] then (hd heap', siftup lt (heap'[0 := lastelt]) 0)
         else (lastelt, heap'))"

section \<open>The planner\<close>

definition heuristic :: "int \<Rightarrow> int \<Rightarrow> int \<Rightarrow> int \<Rightarrow> pyfl" where
  "heuristic x1 y1 x2 y2 = fsqrt (fl_of_int ((x2 - x1) ^ 2 + (y2 - y1) ^ 2))"

definition directions :: "(int \<times> int) list" where
  "directions = [(-1, -1), (-1, 0), (-1, 1), (0, -1), (0, 1), (1, -1), (1, 0), (1, 1)]"

fun neighbors_loop ::
  "int list list \<Rightarrow> pos set \<Rightarrow> pos \<Rightarrow> (int \<times> int) list \<Rightarrow> pos list \<Rightarrow> error + pos list" where
  "neighbors_loop grid blocked p [] neighbors = Inr neighbors"
| "neighbors_loop grid blocked p (d # ds) neighbors =
     (let rows = int (length grid);
          cols = (if 0 < rows then int (length (grid ! 0)) else 0);
          new_x = fst p + fst d;
          new_y = snd p + snd d
      in if 0 \<le> new_x \<and> new_x < rows \<and> 0 \<le> new_y \<and> new_y < cols then
           if (new_x, new_y) \<notin> blocked then
             (case py_get2 grid new_x new_y of
                Inl e \<Rightarrow> Inl e
              | Inr c \<Rightarrow>
                  if c = 0 then neighbors_loop grid blocked p ds (neighbors @ [(new_x, new_y)])
                  else neighbors_loop grid blocked p ds neighbors)
           else neighbors_loop grid blocked p ds neighbors
         else neighbors_loop grid blocked p ds neighbors)"

definition get_neighbors :: "pos \<Rightarrow> int list list \<Rightarrow> pos set \<Rightarrow> error + pos list" where
  "get_neighbors p grid blocked = neighbors_loop grid blocked p directions []"

definition calculate_cost :: "int \<Rightarrow> int \<Rightarrow> int \<Rightarrow> int \<Rightarrow> pyfl" where
  "calculate_cost x1 y1 x2 y2 =
     (let dx = \<bar>x2 - x1\<bar>; dy = \<bar>y2 - y1\<bar>
      in if dx = 1 \<and> dy = 1 then fl_literal 1414 1000 else fl_of_int 1)"

record search_state =
  open_set :: "pos list"
  closed_set :: "pos set"
  all_nodes :: "pos \<rightharpoonup> node"

text \<open>The \<open>for nx, ny in neighbors\<close> loop of \<open>find_path\<close>.\<close>

fun explore_neighbors :: "pos \<Rightarrow> pos \<Rightarrow> pos list \<Rightarrow> search_state \<Rightarrow> search_state" where
  "explore_neighbors goal current [] st = st"
| "explore_neighbors goal current (n # ns) st =
     (if n \<in> closed_set st then explore_neighbors goal current ns st
      else
        let move_cost = calculate_cost (fst current) (snd current) (fst n) (snd n);
            tentative_g = fadd (node_g (deref (all_nodes st) current)) move_cost
        in if (case all_nodes st n of
                 Some neighbor_node \<Rightarrow> fge tentative_g (node_g neighbor_node)
               | None \<Rightarrow> False)
           then explore_neighbors goal current ns st
           else
             let h = heuristic (fst n) (snd n) (fst goal) (snd goal);
                 neighbor_node = \<lparr>node_g = tentative_g, node_h = h,
                                  node_f = fadd tentative_g h, node_parent = Some current\<rparr>;
                 nodes = (all_nodes st)(n \<mapsto> neighbor_node)
             in explore_neighbors goal current ns
                  (st\<lparr>all_nodes := nodes,
                      open_set := heappush (node_lt nodes) (open_set st) n\<rparr>))"

text \<open>The \<open>while node is not None\<close> loop that walks the parent references.\<close>

partial_function (option) reconstruct_path ::
  "(pos \<rightharpoonup> node) \<Rightarrow> pos option \<Rightarrow> pos list \<Rightarrow> pos list option" where
  "reconstruct_path nodes node path =
     (case node of
        None \<Rightarrow> Some path
      | Some p \<Rightarrow> reconstruct_path nodes (node_parent (deref nodes p)) (path @ [p]))"

declare reconstruct_path.simps [code]

type_synonym path_result = "pos list \<times> pyfloat \<times> int"

text \<open>
  The \<open>while open_set\<close> loop of \<open>find_path\<close>. The value \<open>None\<close> stands for a loop that
  does not end, \<open>Some (Inl e)\<close> for a raised exception.
\<close>

partial_function (option) astar_loop ::
  "int list list \<Rightarrow> pos set \<Rightarrow> pos \<Rightarrow> search_state \<Rightarrow> (error + path_result) option" where
  "astar_loop grid blocked_set goal st =
     (if open_set st = [] then Some (Inr ([], PInf, 0))
      else
        let popped = heappop (node_lt (all_nodes st)) (open_set st);
            current = fst popped
        in if current = goal then
             (case reconstruct_path (all_nodes st) (Some current) [] of
                None \<Rightarrow> None
              | Some path \<Rightarrow>
                  Some (Inr (rev path, Finite (node_g (deref (all_nodes st) current)),
                             int (length path) - 1)))
           else
             (case get_neighbors current grid blocked_set of
                Inl e \<Rightarrow> Some (Inl e)
              | Inr neighbors \<Rightarrow>
                  astar_loop grid blocked_set goal
                    (explore_neighbors goal current neighbors
                       (st\<lparr>open_set := snd popped,
                           closed_set := insert current (closed_set st)\<rparr>))))"

declare astar_loop.simps [code]

definition find_path ::
  "int list list \<Rightarrow> pos \<Rightarrow> pos \<Rightarrow> pos list option \<Rightarrow> (error + path_result) option" where
  "find_path grid start goal blocked =
     (let blocked_set = set (case blocked of None \<Rightarrow> [] | Some b \<Rightarrow> b);
          rows = int (length grid)
      in if rows = 0 then Some (Inr ([], PInf, 0))
         else
           let cols = int (length (grid ! 0));
               start_x = fst start; start_y = snd start;
               goal_x = fst goal; goal_y = snd goal
           in if \<not> (0 \<le> start_x \<and> start_x < rows \<and> 0 \<le> start_y \<and> start_y < cols)
              then Some (Inr ([], PInf, 0))
              else if \<not> (0 \<le> goal_x \<and> goal_x < rows \<and> 0 \<le> goal_y \<and> goal_y < cols)
              then Some (Inr ([], PInf, 0))
              else
                if (start_x, start_y) \<in> blocked_set then Some (Inr ([], PInf, 0))
                else
                (case py_get2 grid start_x start_y of
                   Inl e \<Rightarrow> Some (Inl e)
                 | Inr cs \<Rightarrow>
                     if cs = 1 then Some (Inr ([], PInf, 0))
                     else if (goal_x, goal_y) \<in> blocked_set then Some (Inr ([], PInf, 0))
                     else
                       (case py_get2 grid goal_x goal_y of
                          Inl e \<Rightarrow> Some (Inl e)
                        | Inr cg \<Rightarrow>
                            if cg = 1 then Some (Inr ([], PInf, 0))
                            else
                              let h = heuristic start_x start_y goal_x goal_y;
                                  start_node = \<lparr>node_g = Fl 0 0, node_h = h, node_f = fadd (Fl 0 0) h,
                                                node_parent = None\<rparr>
                              in astar_loop grid blocked_set goal
                                   \<lparr>open_set = [start], closed_set = {},
                                    all_nodes = [start \<mapsto> start_node]\<rparr>)))"


section \<open>The risk-weighted planner\<close>

text \<open>The nested function \<open>risk_heuristic\<close>; it reads the risk map, which may be too small.\<close>

definition risk_heuristic ::
  "pyfl list list \<Rightarrow> int \<Rightarrow> int \<Rightarrow> pyfl \<Rightarrow> int \<Rightarrow> int \<Rightarrow> int \<Rightarrow> int \<Rightarrow> error + pyfl" where
  "risk_heuristic risk_map rows cols safety_weight x1 y1 x2 y2 =
     (let base_dist = fsqrt (fl_of_int ((x2 - x1) ^ 2 + (y2 - y1) ^ 2))
      in case (if 0 \<le> x1 \<and> x1 < rows \<and> 0 \<le> y1 \<and> y1 < cols \<and>
                  0 \<le> x2 \<and> x2 < rows \<and> 0 \<le> y2 \<and> y2 < cols
               then (case py_get2 risk_map x1 y1 of
                       Inl e \<Rightarrow> Inl e
                     | Inr r1 \<Rightarrow>
                         (case py_get2 risk_map x2 y2 of
                            Inl e \<Rightarrow> Inl e
                          | Inr r2 \<Rightarrow> Inr (fdiv (fadd r1 r2) (fl_of_int 2))))
               else Inr (Fl 0 0)) of
           Inl e \<Rightarrow> Inl e
         | Inr avg_risk \<Rightarrow>
             let risk_penalty = fmul avg_risk (fl_of_int 10)
             in Inr (fadd (fmul base_dist (fsub (fl_of_int 1) safety_weight))
                          (fmul risk_penalty safety_weight)))"

text \<open>The \<open>for nx, ny in neighbors\<close> loop of \<open>find_path_with_risk\<close>.\<close>

fun explore_neighbors_risk ::
  "pyfl list list \<Rightarrow> int \<Rightarrow> int \<Rightarrow> pyfl \<Rightarrow> pos \<Rightarrow> pos \<Rightarrow> pos list \<Rightarrow> search_state
     \<Rightarrow> error + search_state" where
  "explore_neighbors_risk risk_map rows cols safety_weight goal current [] st = Inr st"
| "explore_neighbors_risk risk_map rows cols safety_weight goal current (n # ns) st =
     (if n \<in> closed_set st
      then explore_neighbors_risk risk_map rows cols safety_weight goal current ns st
      else
        let move_cost = calculate_cost (fst current) (snd current) (fst n) (snd n)
        in case (if 0 \<le> fst n \<and> fst n < rows \<and> 0 \<le> snd n \<and> snd n < cols
                 then (case py_get2 risk_map (fst n) (snd n) of
                         Inl e \<Rightarrow> Inl e
                       | Inr r \<Rightarrow> Inr (fmul r (fl_of_int 10)))
                 else Inr (Fl 0 0)) of
             Inl e \<Rightarrow> Inl e
           | Inr risk_cost \<Rightarrow>
               let combined_cost = fadd (fmul move_cost (fsub (fl_of_int 1) safety_weight))
                                        (fmul risk_cost safety_weight);
                   tentative_g = fadd (node_g (deref (all_nodes st) current)) combined_cost
               in if (case all_nodes st n of
                        Some neighbor_node \<Rightarrow> fge tentative_g (node_g neighbor_node)
                      | None \<Rightarrow> False)
                  then explore_neighbors_risk risk_map rows cols safety_weight goal current ns st
                  else
                    (case risk_heuristic risk_map rows cols safety_weight
                            (fst n) (snd n) (fst goal) (snd goal) of
                       Inl e \<Rightarrow> Inl e
                     | Inr h \<Rightarrow>
                         let neighbor_node = \<lparr>node_g = tentative_g, node_h = h,
                                              node_f = fadd tentative_g h,
                                              node_parent = Some current\<rparr>;
                             nodes = (all_nodes st)(n \<mapsto> neighbor_node)
                         in explore_neighbors_risk risk_map rows cols safety_weight goal current ns
                              (st\<lparr>all_nodes := nodes,
                                  open_set := heappush (node_lt nodes) (open_set st) n\<rparr>)))"

text \<open>The reconstruction loop of \<open>find_path_with_risk\<close>, which also sums the risk.\<close>

partial_function (option) reconstruct_path_risk ::
  "pyfl list list \<Rightarrow> int \<Rightarrow> int \<Rightarrow> (pos \<rightharpoonup> node) \<Rightarrow> pos option \<Rightarrow> pos list \<Rightarrow> pyfl
     \<Rightarrow> (error + pos list \<times> pyfl) option" where
  "reconstruct_path_risk risk_map rows cols nodes node path total_risk =
     (case node of
        None \<Rightarrow> Some (Inr (path, total_risk))
      | Some p \<Rightarrow>
          if 0 \<le> fst p \<and> fst p < rows \<and> 0 \<le> snd p \<and> snd p < cols then
            (case py_get2 risk_map (fst p) (snd p) of
               Inl e \<Rightarrow> Some (Inl e)
             | Inr r \<Rightarrow>
                 reconstruct_path_risk risk_map rows cols nodes (node_parent (deref nodes p))
                   (path @ [p]) (fadd total_risk r))
          else
            reconstruct_path_risk risk_map rows cols nodes (node_parent (deref nodes p))
              (path @ [p]) total_risk)"

declare reconstruct_path_risk.simps [code]

type_synonym risk_result = "pos list \<times> pyfloat \<times> pyfloat \<times> int"

text \<open>The \<open>while open_set\<close> loop of \<open>find_path_with_risk\<close>.\<close>

partial_function (option) risk_loop ::
  "int list list \<Rightarrow> pos set \<Rightarrow> pyfl list list \<Rightarrow> int \<Rightarrow> int \<Rightarrow> pyfl \<Rightarrow> pos \<Rightarrow> search_state
     \<Rightarrow> (error + risk_result) option" where
  "risk_loop grid blocked_set risk_map rows cols safety_weight goal st =
     (if open_set st = [] then Some (Inr ([], PInf, PInf, 0))
      else
        let popped = heappop (node_lt (all_nodes st)) (open_set st);
            current = fst popped
        in if current = goal then
             (case reconstruct_path_risk risk_map rows cols (all_nodes st) (Some current) []
                     (Fl 0 0) of
                None \<Rightarrow> None
              | Some (Inl e) \<Rightarrow> Some (Inl e)
              | Some (Inr (path, total_risk)) \<Rightarrow>
                  Some (Inr (rev path, Finite (node_g (deref (all_nodes st) current)),
                             Finite total_risk, int (length path) - 1)))
           else
             (case get_neighbors current grid blocked_set of
                Inl e \<Rightarrow> Some (Inl e)
              | Inr neighbors \<Rightarrow>
                  (case explore_neighbors_risk risk_map rows cols safety_weight goal current
                          neighbors
                          (st\<lparr>open_set := snd popped,
                              closed_set := insert current (closed_set st)\<rparr>) of
                     Inl e \<Rightarrow> Some (Inl e)
                   | Inr st' \<Rightarrow>
                       risk_loop grid blocked_set risk_map rows cols safety_weight goal st')))"

declare risk_loop.simps [code]

definition find_path_with_risk ::
  "int list list \<Rightarrow> pos \<Rightarrow> pos \<Rightarrow> pyfl list list option \<Rightarrow> pos list option \<Rightarrow> pyfl
     \<Rightarrow> (error + risk_result) option" where
  "find_path_with_risk grid start goal risk_map blocked safety_weight =
     (let risk_map = (case risk_map of
                        None \<Rightarrow> map (\<lambda>_. replicate (length (grid ! 0)) (Fl 0 0)) grid
                      | Some m \<Rightarrow> m);
          blocked_set = set (case blocked of None \<Rightarrow> [] | Some b \<Rightarrow> b);
          rows = int (length grid)
      in if rows = 0 then Some (Inr ([], PInf, PInf, 0))
         else
           let cols = int (length (grid ! 0));
               start_x = fst start; start_y = snd start;
               goal_x = fst goal; goal_y = snd goal
           in if \<not> (0 \<le> start_x \<and> start_x < rows \<and> 0 \<le> start_y \<and> start_y < cols)
              then Some (Inr ([], PInf, PInf, 0))
              else if \<not> (0 \<le> goal_x \<and> goal_x < rows \<and> 0 \<le> goal_y \<and> goal_y < cols)
              then Some (Inr ([], PInf, PInf, 0))
              else
                (case risk_heuristic risk_map rows cols safety_weight
                        start_x start_y goal_x goal_y of
                   Inl e \<Rightarrow> Some (Inl e)
                 | Inr h \<Rightarrow>
                     let start_node = \<lparr>node_g = Fl 0 0, node_h = h, node_f = fadd (Fl 0 0) h,
                                       node_parent = None\<rparr>
                     in risk_loop grid blocked_set risk_map rows cols safety_weight goal
                          \<lparr>open_set = [start], closed_set = {},
                           all_nodes = [start \<mapsto> start_node]\<rparr>))"

section \<open>Route comparison\<close>

record route =
  route_path :: "pos list"
  route_distance :: pyfloat
  route_risk :: pyfloat
  route_length :: int

record comparison =
  shortest :: route
  safest :: route
  balanced :: route

text \<open>\<open>len(path) - 1 if path else 0\<close>.\<close>

definition edges :: "pos list \<Rightarrow> int" where
  "edges path = (if path \<noteq> [] then int (length path) - 1 else 0)"

text \<open>
  One of the two \<open>if risk_map: ... else: ...\<close> statements of \<open>compare_routes\<close>. The
  test is false for \<open>None\<close> and for the empty list.
\<close>

definition weighted_route ::
  "int list list \<Rightarrow> pos \<Rightarrow> pos \<Rightarrow> pyfl list list option \<Rightarrow> pos list option \<Rightarrow> pyfl
     \<Rightarrow> pos list \<Rightarrow> pyfloat \<Rightarrow> (error + pos list \<times> pyfloat \<times> pyfloat) option" where
  "weighted_route grid start goal risk_map blocked safety_weight shortest_path shortest_cost =
     (if (case risk_map of None \<Rightarrow> False | Some m \<Rightarrow> m \<noteq> [])
      then (case find_path_with_risk grid start goal risk_map blocked safety_weight of
              None \<Rightarrow> None
            | Some (Inl e) \<Rightarrow> Some (Inl e)
            | Some (Inr (p, d, r, _)) \<Rightarrow> Some (Inr (p, d, r)))
      else Some (Inr (shortest_path, shortest_cost, Finite (Fl 0 0))))"

text \<open>\<open>compare_routes\<close>; the weights are the literals \<open>0.8\<close> and \<open>0.5\<close>.\<close>

definition compare_routes ::
  "int list list \<Rightarrow> pos \<Rightarrow> pos \<Rightarrow> pyfl list list option \<Rightarrow> pos list option
     \<Rightarrow> (error + comparison) option" where
  "compare_routes grid start goal risk_map blocked =
     (case find_path grid start goal blocked of
        None \<Rightarrow> None
      | Some (Inl e) \<Rightarrow> Some (Inl e)
      | Some (Inr (shortest_path, shortest_cost, _)) \<Rightarrow>
          (case weighted_route grid start goal risk_map blocked (fl_literal 8 10)
                  shortest_path shortest_cost of
             None \<Rightarrow> None
           | Some (Inl e) \<Rightarrow> Some (Inl e)
           | Some (Inr (safest_path, safest_dist, safest_risk)) \<Rightarrow>
               (case weighted_route grid start goal risk_map blocked (fl_literal 5 10)
                       shortest_path shortest_cost of
                  None \<Rightarrow> None
                | Some (Inl e) \<Rightarrow> Some (Inl e)
                | Some (Inr (balanced_path, balanced_dist, balanced_risk)) \<Rightarrow>
                    Some (Inr
                      \<lparr>shortest =
                         \<lparr>route_path = shortest_path,
                          route_distance = round2 shortest_cost,
                          route_risk = Finite (Fl 0 0),
                          route_length = edges shortest_path\<rparr>,
                       safest =
                         \<lparr>route_path = safest_path,
                          route_distance = round2 safest_dist,
                          route_risk = round2 safest_risk,
                          route_length = edges safest_path\<rparr>,
                       balanced =
                         \<lparr>route_path = balanced_path,
                          route_distance = round2 balanced_dist,
                          route_risk = round2 balanced_risk,
                          route_length = edges balanced_path\<rparr>\<rparr>))))"

section \<open>Paths\<close>

text \<open>
  The notions the properties below are stated with: a cell is traversable when it is
  inside the grid, free and not blocked; a step goes to one of the eight neighbours; the
  cost of a path adds the cost of its edges from the start, as the search does.
\<close>

definition in_bounds :: "int list list \<Rightarrow> pos \<Rightarrow> bool" where
  "in_bounds grid p =
     (0 \<le> fst p \<and> fst p < int (length grid) \<and> 0 \<le> snd p \<and> snd p < int (length (grid ! 0)))"

definition traversable :: "int list list \<Rightarrow> pos set \<Rightarrow> pos \<Rightarrow> bool" where
  "traversable grid blocked p =
     (in_bounds grid p \<and> p \<notin> blocked \<and> py_get2 grid (fst p) (snd p) = Inr 0)"

definition is_step :: "pos \<Rightarrow> pos \<Rightarrow> bool" where
  "is_step a b = (\<bar>fst b - fst a\<bar> \<le> 1 \<and> \<bar>snd b - snd a\<bar> \<le> 1 \<and> a \<noteq> b)"

fun steps_ok :: "pos list \<Rightarrow> bool" where
  "steps_ok (a # b # ps) = (is_step a b \<and> steps_ok (b # ps))"
| "steps_ok ps = True"

fun path_cost_from :: "pyfl \<Rightarrow> pos list \<Rightarrow> pyfl" where
  "path_cost_from acc (a # b # ps) =
     path_cost_from (fadd acc (calculate_cost (fst a) (snd a) (fst b) (snd b))) (b # ps)"
| "path_cost_from acc ps = acc"

definition path_cost :: "pos list \<Rightarrow> pyfl" where
  "path_cost path = path_cost_from (Fl 0 0) path"

section \<open>Values of the float operations\<close>

lemmas fl_eval = fl_round_def norm_up.simps norm_down.simps fadd_def fsub_def fmul_def fdiv_def
  flt_def fge_def Let_def

lemma fl_of_int_1: "fl_of_int 1 = Fl 4503599627370496 (- 52)"
  by (simp add: fl_of_int_def fl_round_def norm_up.simps cong: let_weak_cong)

lemma fl_of_int_2: "fl_of_int 2 = Fl 4503599627370496 (- 51)"
  by (simp add: fl_of_int_def fl_round_def norm_up.simps cong: let_weak_cong)

lemma fl_of_int_4: "fl_of_int 4 = Fl 4503599627370496 (- 50)"
  by (simp add: fl_of_int_def fl_round_def norm_up.simps cong: let_weak_cong)

lemma fl_of_int_5: "fl_of_int 5 = Fl 5629499534213120 (- 50)"
  by (simp add: fl_of_int_def fl_round_def norm_up.simps cong: let_weak_cong)

lemma fl_of_int_8: "fl_of_int 8 = Fl 4503599627370496 (- 49)"
  by (simp add: fl_of_int_def fl_round_def norm_up.simps cong: let_weak_cong)

lemma fl_of_int_9: "fl_of_int 9 = Fl 5066549580791808 (- 49)"
  by (simp add: fl_of_int_def fl_round_def norm_up.simps cong: let_weak_cong)

lemma fl_of_int_10: "fl_of_int 10 = Fl 5629499534213120 (- 49)"
  by (simp add: fl_of_int_def fl_round_def norm_up.simps cong: let_weak_cong)

lemma fl_of_int_13: "fl_of_int 13 = Fl 7318349394477056 (- 49)"
  by (simp add: fl_of_int_def fl_round_def norm_up.simps cong: let_weak_cong)

lemma fl_of_int_16: "fl_of_int 16 = Fl 4503599627370496 (- 48)"
  by (simp add: fl_of_int_def fl_round_def norm_up.simps cong: let_weak_cong)

lemma fl_of_int_17: "fl_of_int 17 = Fl 4785074604081152 (- 48)"
  by (simp add: fl_of_int_def fl_round_def norm_up.simps cong: let_weak_cong)

lemma fl_of_int_18: "fl_of_int 18 = Fl 5066549580791808 (- 48)"
  by (simp add: fl_of_int_def fl_round_def norm_up.simps cong: let_weak_cong)

lemma fl_of_int_20: "fl_of_int 20 = Fl 5629499534213120 (- 48)"
  by (simp add: fl_of_int_def fl_round_def norm_up.simps cong: let_weak_cong)

lemma fl_of_int_25: "fl_of_int 25 = Fl 7036874417766400 (- 48)"
  by (simp add: fl_of_int_def fl_round_def norm_up.simps cong: let_weak_cong)

lemma fl_of_int_32: "fl_of_int 32 = Fl 4503599627370496 (- 47)"
  by (simp add: fl_of_int_def fl_round_def norm_up.simps cong: let_weak_cong)

lemma fl_of_int_0: "fl_of_int 0 = Fl 0 0"
  by (simp add: fl_of_int_def fl_round_def)

lemma fsqrt_0: "fsqrt (Fl 0 0) = Fl 0 0"
  by (simp add: fsqrt_def)

lemma fsqrt_1: "fsqrt (Fl 4503599627370496 (- 52)) = Fl 4503599627370496 (- 52)"
proof -
  have "isqrt_newton 81129638414606681695789005144064 18014398509481984 = 9007199254740992"
    by code_simp
  then show ?thesis
    by (simp add: fsqrt_def fl_round_def norm_down.simps Let_def cong: let_weak_cong)
qed

lemma fsqrt_2: "fsqrt (Fl 4503599627370496 (- 51)) = Fl 6369051672525773 (- 52)"
proof -
  have "isqrt_newton 162259276829213363391578010288128 18014398509481984 = 12738103345051545"
    by code_simp
  then show ?thesis
    by (simp add: fsqrt_def fl_round_def norm_down.simps Let_def cong: let_weak_cong)
qed

lemma fsqrt_4: "fsqrt (Fl 4503599627370496 (- 50)) = Fl 4503599627370496 (- 51)"
proof -
  have "isqrt_newton 81129638414606681695789005144064 18014398509481984 = 9007199254740992"
    by code_simp
  then show ?thesis
    by (simp add: fsqrt_def fl_round_def norm_down.simps Let_def cong: let_weak_cong)
qed

lemma fsqrt_5: "fsqrt (Fl 5629499534213120 (- 50)) = Fl 5035177455121576 (- 51)"
proof -
  have "isqrt_newton 101412048018258352119736256430080 18014398509481984 = 10070354910243151"
    by code_simp
  then show ?thesis
    by (simp add: fsqrt_def fl_round_def norm_down.simps Let_def cong: let_weak_cong)
qed

lemma fsqrt_8: "fsqrt (Fl 4503599627370496 (- 49)) = Fl 6369051672525773 (- 51)"
proof -
  have "isqrt_newton 162259276829213363391578010288128 18014398509481984 = 12738103345051545"
    by code_simp
  then show ?thesis
    by (simp add: fsqrt_def fl_round_def norm_down.simps Let_def cong: let_weak_cong)
qed

lemma fsqrt_9: "fsqrt (Fl 5066549580791808 (- 49)) = Fl 6755399441055744 (- 51)"
proof -
  have "isqrt_newton 182541686432865033815525261574144 18014398509481984 = 13510798882111488"
    by code_simp
  then show ?thesis
    by (simp add: fsqrt_def fl_round_def norm_down.simps Let_def cong: let_weak_cong)
qed

lemma fsqrt_10: "fsqrt (Fl 5629499534213120 (- 49)) = Fl 7120816245988179 (- 51)"
proof -
  have "isqrt_newton 202824096036516704239472512860160 18014398509481984 = 14241632491976357"
    by code_simp
  then show ?thesis
    by (simp add: fsqrt_def fl_round_def norm_down.simps Let_def cong: let_weak_cong)
qed

lemma fsqrt_13: "fsqrt (Fl 7318349394477056 (- 49)) = Fl 8118979690322419 (- 51)"
proof -
  have "isqrt_newton 263671324847471715511314266718208 18014398509481984 = 16237959380644838"
    by code_simp
  then show ?thesis
    by (simp add: fsqrt_def fl_round_def norm_down.simps Let_def cong: let_weak_cong)
qed

lemma fsqrt_16: "fsqrt (Fl 4503599627370496 (- 48)) = Fl 4503599627370496 (- 50)"
proof -
  have "isqrt_newton 81129638414606681695789005144064 18014398509481984 = 9007199254740992"
    by code_simp
  then show ?thesis
    by (simp add: fsqrt_def fl_round_def norm_down.simps Let_def cong: let_weak_cong)
qed

lemma fsqrt_17: "fsqrt (Fl 4785074604081152 (- 48)) = Fl 4642204239785223 (- 50)"
proof -
  have "isqrt_newton 86200240815519599301775817965568 18014398509481984 = 9284408479570445"
    by code_simp
  then show ?thesis
    by (simp add: fsqrt_def fl_round_def norm_down.simps Let_def cong: let_weak_cong)
qed

lemma fsqrt_18: "fsqrt (Fl 5066549580791808 (- 48)) = Fl 4776788754394329 (- 50)"
proof -
  have "isqrt_newton 91270843216432516907762630787072 18014398509481984 = 9553577508788658"
    by code_simp
  then show ?thesis
    by (simp add: fsqrt_def fl_round_def norm_down.simps Let_def cong: let_weak_cong)
qed

lemma fsqrt_20: "fsqrt (Fl 5629499534213120 (- 48)) = Fl 5035177455121576 (- 50)"
proof -
  have "isqrt_newton 101412048018258352119736256430080 18014398509481984 = 10070354910243151"
    by code_simp
  then show ?thesis
    by (simp add: fsqrt_def fl_round_def norm_down.simps Let_def cong: let_weak_cong)
qed

lemma fsqrt_25: "fsqrt (Fl 7036874417766400 (- 48)) = Fl 5629499534213120 (- 50)"
proof -
  have "isqrt_newton 126765060022822940149670320537600 18014398509481984 = 11258999068426240"
    by code_simp
  then show ?thesis
    by (simp add: fsqrt_def fl_round_def norm_down.simps Let_def cong: let_weak_cong)
qed

lemma fsqrt_32: "fsqrt (Fl 4503599627370496 (- 47)) = Fl 6369051672525773 (- 50)"
proof -
  have "isqrt_newton 162259276829213363391578010288128 18014398509481984 = 12738103345051545"
    by code_simp
  then show ?thesis
    by (simp add: fsqrt_def fl_round_def norm_down.simps Let_def cong: let_weak_cong)
qed

lemma fl_literal_1414: "fl_literal 1414 1000 = Fl 6368089873101881 (- 52)"
  by (simp add: fl_literal_def fl_of_int_def fl_eval cong: let_weak_cong)

lemma fl_literal_05: "fl_literal 5 10 = Fl 4503599627370496 (- 53)"
  by (simp add: fl_literal_def fl_of_int_def fl_eval cong: let_weak_cong)

lemma fl_literal_08: "fl_literal 8 10 = Fl 7205759403792794 (- 53)"
  by (simp add: fl_literal_def fl_of_int_def fl_eval cong: let_weak_cong)

lemma fdiv_zero: "fdiv (Fl 0 0) y = Fl 0 0"
  by (cases y) (simp add: fdiv_def fl_round_def)

lemma round2_zero: "round2 (Finite (Fl 0 0)) = Finite (Fl 0 0)"
  by (simp add: round2_def fl_literal_def fl_of_int_def fl_round_def fdiv_zero)

lemmas fl_tables = fl_literal_1414 fl_literal_05 fl_literal_08 fl_of_int_0
  fl_of_int_1 fl_of_int_2 fl_of_int_4 fl_of_int_5 fl_of_int_8 fl_of_int_9 fl_of_int_10 fl_of_int_13 fl_of_int_16 fl_of_int_17 fl_of_int_18 fl_of_int_20 fl_of_int_25 fl_of_int_32
  fsqrt_0 fsqrt_1 fsqrt_2 fsqrt_4 fsqrt_5 fsqrt_8 fsqrt_9 fsqrt_10 fsqrt_13 fsqrt_16 fsqrt_17 fsqrt_18 fsqrt_20 fsqrt_25 fsqrt_32

text \<open>The equations that run the planner on a concrete input.\<close>

lemmas run_simps = find_path_def astar_loop.simps reconstruct_path.simps get_neighbors_def
  directions_def py_get2_def py_get_def calculate_cost_def heuristic_def heappush_def heappop_def
  siftdown_def siftdown_loop.simps siftup_def siftup_loop.simps node_lt_def deref_def
  fl_eval fl_tables

lemmas risk_run_simps = find_path_with_risk_def risk_loop.simps reconstruct_path_risk.simps
  risk_heuristic_def

lemmas path_simps = in_bounds_def traversable_def is_step_def path_cost_def

section \<open>A search from a cell to itself\<close>

lemma heappop_single: "heappop lt [x] = (x, [])"
  by (simp add: heappop_def)

lemma reconstruct_path_root:
  "node_parent (deref nodes p) = None \<Longrightarrow>
   reconstruct_path nodes (Some p) path = Some (path @ [p])"
  by (simp add: reconstruct_path.simps)

text \<open>
  Claim C8: for a non-empty grid and a position \<open>p\<close> that is in bounds, free and not
  blocked, \<open>find_path\<close> from \<open>p\<close> to \<open>p\<close> returns the one-element path \<open>[p]\<close> with
  cost 0 and length 0.
\<close>

theorem find_path_start_is_goal:
  assumes "traversable grid (set (case blocked of None \<Rightarrow> [] | Some b \<Rightarrow> b)) p"
  shows "find_path grid p p blocked = Some (Inr ([p], Finite (Fl 0 0), 0))"
proof -
  let ?n = "\<lparr>node_g = Fl 0 0, node_h = heuristic (fst p) (snd p) (fst p) (snd p),
             node_f = fadd (Fl 0 0) (heuristic (fst p) (snd p) (fst p) (snd p)),
             node_parent = None\<rparr>"
  let ?st = "\<lparr>open_set = [p], closed_set = {}, all_nodes = [p \<mapsto> ?n]\<rparr>"
  have loop: "astar_loop grid (set (case blocked of None \<Rightarrow> [] | Some b \<Rightarrow> b)) p ?st
               = Some (Inr ([p], Finite (Fl 0 0), 0))"
    by (subst astar_loop.simps)
       (simp add: heappop_single reconstruct_path_root deref_def)
  from assms have "length grid \<noteq> 0"
    by (auto simp: traversable_def in_bounds_def)
  with assms loop show ?thesis
    by (simp add: find_path_def Let_def traversable_def in_bounds_def)
qed

theorem find_path_start_is_goal_witness:
  "traversable [[0, 1], [0, 0]] (set (case Some [(0, 0)] of None \<Rightarrow> [] | Some b \<Rightarrow> b)) (1, 1) \<and>
   find_path [[0, 1], [0, 0]] (1, 1) (1, 1) (Some [(0, 0)])
     = Some (Inr ([(1, 1)], Finite (Fl 0 0), 0))"
proof -
  have t: "traversable [[0, 1], [0, 0]]
             (set (case Some [(0, 0)] of None \<Rightarrow> [] | Some b \<Rightarrow> b)) (1, 1)"
    by (simp add: path_simps py_get2_def py_get_def)
  from t find_path_start_is_goal [OF t] show ?thesis
    by simp
qed

section \<open>Route comparison: the shortest entry and the empty risk map\<close>

text \<open>
  Claim C9: whenever \<open>compare_routes\<close> returns, the \<open>risk\<close> field of its \<open>shortest\<close>
  entry is \<open>0.0\<close>, whatever the risk map holds on the cells of that path.
\<close>

theorem compare_routes_shortest_risk:
  assumes "compare_routes grid start goal risk_map blocked = Some (Inr r)"
  shows "route_risk (shortest r) = Finite (Fl 0 0)"
  using assms
  by (auto simp: compare_routes_def split: option.splits sum.splits prod.splits)

theorem compare_routes_shortest_risk_witness:
  "compare_routes [[0, 0]] (0, 0) (0, 1)
     (Some [[Fl 8106479329266893 (- 53), Fl 8106479329266893 (- 53)]]) None
   = Some (Inr
       \<lparr>shortest = \<lparr>route_path = [(0, 0), (0, 1)],
                     route_distance = Finite (Fl 4503599627370496 (- 52)),
                     route_risk = Finite (Fl 0 0), route_length = 1\<rparr>,
        safest = \<lparr>route_path = [(0, 0), (0, 1)],
                   route_distance = Finite (Fl 8331659310635418 (- 50)),
                   route_risk = Finite (Fl 8106479329266893 (- 52)), route_length = 1\<rparr>,
        balanced = \<lparr>route_path = [(0, 0), (0, 1)],
                     route_distance = Finite (Fl 5629499534213120 (- 50)),
                     route_risk = Finite (Fl 8106479329266893 (- 52)), route_length = 1\<rparr>\<rparr>)
   \<and> route_risk (shortest
       \<lparr>shortest = \<lparr>route_path = [(0, 0), (0, 1)],
                     route_distance = Finite (Fl 4503599627370496 (- 52)),
                     route_risk = Finite (Fl 0 0), route_length = 1\<rparr>,
        safest = \<lparr>route_path = [(0, 0), (0, 1)],
                   route_distance = Finite (Fl 8331659310635418 (- 50)),
                   route_risk = Finite (Fl 8106479329266893 (- 52)), route_length = 1\<rparr>,
        balanced = \<lparr>route_path = [(0, 0), (0, 1)],
                     route_distance = Finite (Fl 5629499534213120 (- 50)),
                     route_risk = Finite (Fl 8106479329266893 (- 52)), route_length = 1\<rparr>\<rparr>)
     = Finite (Fl 0 0)"
proof -
  have e: "compare_routes [[0, 0]] (0, 0) (0, 1)
     (Some [[Fl 8106479329266893 (- 53), Fl 8106479329266893 (- 53)]]) None
   = Some (Inr
       \<lparr>shortest = \<lparr>route_path = [(0, 0), (0, 1)],
                     route_distance = Finite (Fl 4503599627370496 (- 52)),
                     route_risk = Finite (Fl 0 0), route_length = 1\<rparr>,
        safest = \<lparr>route_path = [(0, 0), (0, 1)],
                   route_distance = Finite (Fl 8331659310635418 (- 50)),
                   route_risk = Finite (Fl 8106479329266893 (- 52)), route_length = 1\<rparr>,
        balanced = \<lparr>route_path = [(0, 0), (0, 1)],
                     route_distance = Finite (Fl 5629499534213120 (- 50)),
                     route_risk = Finite (Fl 8106479329266893 (- 52)), route_length = 1\<rparr>\<rparr>)"
    by (simp add: compare_routes_def weighted_route_def edges_def round2_def round_half_even_div_def
          fl_literal_def fl_of_int_def run_simps risk_run_simps cong: let_weak_cong)
  from e compare_routes_shortest_risk [OF e] show ?thesis
    by simp
qed

text \<open>
  Claim C10: with the empty list as risk map, \<open>compare_routes\<close> is computed from the
  result of \<open>find_path\<close> alone (the risk-weighted search is not run): the \<open>safest\<close> and
  \<open>balanced\<close> entries carry the path and distance of \<open>shortest\<close> and risk \<open>0.0\<close>.
\<close>

theorem compare_routes_empty_risk_map:
  "compare_routes grid start goal (Some []) blocked =
     (case find_path grid start goal blocked of
        None \<Rightarrow> None
      | Some (Inl e) \<Rightarrow> Some (Inl e)
      | Some (Inr (path, cost, _)) \<Rightarrow>
          Some (Inr
            \<lparr>shortest = \<lparr>route_path = path, route_distance = round2 cost,
                          route_risk = Finite (Fl 0 0), route_length = edges path\<rparr>,
             safest = \<lparr>route_path = path, route_distance = round2 cost,
                        route_risk = Finite (Fl 0 0), route_length = edges path\<rparr>,
             balanced = \<lparr>route_path = path, route_distance = round2 cost,
                          route_risk = Finite (Fl 0 0), route_length = edges path\<rparr>\<rparr>))"
  by (auto simp: compare_routes_def weighted_route_def round2_zero
           split: option.splits sum.splits prod.splits)

text \<open>The empty risk map and the absent one give the same result.\<close>

lemma compare_routes_empty_is_none:
  "compare_routes grid start goal (Some []) blocked = compare_routes grid start goal None blocked"
proof -
  have h: "weighted_route grid start goal (Some []) blocked =
           weighted_route grid start goal None blocked"
    by (simp add: weighted_route_def fun_eq_iff)
  show ?thesis
    unfolding compare_routes_def h ..
qed

section \<open>Start or goal on an obstacle\<close>

text \<open>\<open>find_path\<close> checks both ends: an obstacle or blocked cell gives the no-path result.\<close>

lemma find_path_rejects_start:
  assumes "in_bounds grid start" and "in_bounds grid goal"
    and "start \<in> set (case blocked of None \<Rightarrow> [] | Some b \<Rightarrow> b)
         \<or> py_get2 grid (fst start) (snd start) = Inr 1"
  shows "find_path grid start goal blocked = Some (Inr ([], PInf, 0))"
  using assms by (auto simp: find_path_def Let_def in_bounds_def)

lemma find_path_rejects_goal:
  assumes "in_bounds grid start" and "in_bounds grid goal"
    and "py_get2 grid (fst start) (snd start) = Inr c"
    and "goal \<in> set (case blocked of None \<Rightarrow> [] | Some b \<Rightarrow> b)
         \<or> py_get2 grid (fst goal) (snd goal) = Inr 1"
  shows "find_path grid start goal blocked = Some (Inr ([], PInf, 0))"
  using assms by (auto simp: find_path_def Let_def in_bounds_def)

text \<open>
  Claim C3: an in-bounds start or goal on an obstacle or blocked cell makes both
  \<open>find_path\<close> and \<open>find_path_with_risk\<close> return the no-path result. The risk-weighted
  search has no such check: from the obstacle cell \<open>[0, 0]\<close> of the grid \<open>[[1, 0]]\<close> it
  returns a path, where \<open>find_path\<close> returns the no-path result.
\<close>

theorem find_path_with_risk_starts_on_obstacle:
  "find_path_with_risk [[1, 0]] (0, 0) (0, 1) None None (fl_literal 5 10)
     = Some (Inr ([(0, 0), (0, 1)], Finite (Fl 4503599627370496 (- 53)), Finite (Fl 0 0), 1))
   \<and> find_path [[1, 0]] (0, 0) (0, 1) None = Some (Inr ([], PInf, 0))"
  by (simp add: run_simps risk_run_simps cong: let_weak_cong)

section \<open>The cost of a diagonal step\<close>

text \<open>
  Claim C4: a diagonal step costs the square root of two, so that the diagonal of the
  free 5 by 5 grid costs about 5.657. The constant of \<open>_calculate_cost\<close> is \<open>1.414\<close>,
  which is below the float nearest to the square root of two; the path found on the free
  5 by 5 grid has four diagonal steps, and its cost is four times \<open>1.414\<close>, below
  \<open>4 * 1.41421356\<close>.
\<close>

theorem find_path_diagonal_cost:
  "find_path [[0, 0, 0, 0, 0], [0, 0, 0, 0, 0], [0, 0, 0, 0, 0], [0, 0, 0, 0, 0], [0, 0, 0, 0, 0]]
     (0, 0) (4, 4) None
     = Some (Inr ([(0, 0), (1, 1), (2, 2), (3, 3), (4, 4)], Finite (Fl 6368089873101881 (- 50)), 4))
   \<and> calculate_cost 0 0 1 1 = fl_literal 1414 1000
   \<and> flt (fl_literal 1414 1000) (fsqrt (fl_of_int 2))
   \<and> 5656 / 1000 - 1 / 10 ^ 15 < fl_val (Fl 6368089873101881 (- 50))
   \<and> fl_val (Fl 6368089873101881 (- 50)) < 4 * (141421356 / 100000000) - 8 / 10000"
proof -
  have "find_path [[0, 0, 0, 0, 0], [0, 0, 0, 0, 0], [0, 0, 0, 0, 0], [0, 0, 0, 0, 0],
                   [0, 0, 0, 0, 0]] (0, 0) (4, 4) None
     = Some (Inr ([(0, 0), (1, 1), (2, 2), (3, 3), (4, 4)], Finite (Fl 6368089873101881 (- 50)), 4))"
    by (simp add: run_simps cong: let_weak_cong)
  moreover have "calculate_cost 0 0 1 1 = fl_literal 1414 1000"
    by (simp add: calculate_cost_def)
  moreover have "flt (fl_literal 1414 1000) (fsqrt (fl_of_int 2))"
    by (simp add: fl_tables flt_def)
  moreover have "5656 / 1000 - 1 / 10 ^ 15 < fl_val (Fl 6368089873101881 (- 50))"
    by (simp add: fl_val_def)
  moreover have "fl_val (Fl 6368089873101881 (- 50)) < 4 * (141421356 / 100000000) - 8 / 10000"
    by (simp add: fl_val_def)
  ultimately show ?thesis
    by simp
qed

section \<open>A search result that is not the cheapest path\<close>

text \<open>
  Claim C1: the cost returned by \<open>find_path\<close> is minimal among the paths of traversable
  8-connected steps from start to goal. The search assigns to the \<open>f\<close> field of nodes that
  sit in the open set, which breaks the order of the queue: on the grid below it returns
  a path of cost 5.414 from \<open>[0, 3]\<close> to \<open>[4, 1]\<close>, and the path through \<open>[3, 2]\<close> costs
  4.828.
\<close>

theorem find_path_not_minimal:
  "find_path [[0, 0, 0, 0, 0], [0, 0, 0, 0, 0], [1, 0, 1, 0, 0], [0, 1, 0, 0, 0], [0, 0, 0, 0, 0]]
     (0, 3) (4, 1) None
     = Some (Inr ([(0, 3), (1, 3), (2, 3), (3, 3), (4, 2), (4, 1)],
                  Finite (Fl 6095622095645966 (- 50)), 5))
   \<and> list_all (traversable
         [[0, 0, 0, 0, 0], [0, 0, 0, 0, 0], [1, 0, 1, 0, 0], [0, 1, 0, 0, 0], [0, 0, 0, 0, 0]] {})
         [(0, 3), (1, 3), (2, 3), (3, 2), (4, 1)]
   \<and> steps_ok [(0, 3), (1, 3), (2, 3), (3, 2), (4, 1)]
   \<and> path_cost [(0, 3), (1, 3), (2, 3), (3, 2), (4, 1)] = Fl 5435844750236188 (- 50)
   \<and> flt (Fl 5435844750236188 (- 50)) (Fl 6095622095645966 (- 50))"
proof -
  have "find_path [[0, 0, 0, 0, 0], [0, 0, 0, 0, 0], [1, 0, 1, 0, 0], [0, 1, 0, 0, 0],
                   [0, 0, 0, 0, 0]] (0, 3) (4, 1) None
     = Some (Inr ([(0, 3), (1, 3), (2, 3), (3, 3), (4, 2), (4, 1)],
                  Finite (Fl 6095622095645966 (- 50)), 5))"
    by (simp add: run_simps cong: let_weak_cong)
  moreover have "list_all (traversable
         [[0, 0, 0, 0, 0], [0, 0, 0, 0, 0], [1, 0, 1, 0, 0], [0, 1, 0, 0, 0], [0, 0, 0, 0, 0]] {})
         [(0, 3), (1, 3), (2, 3), (3, 2), (4, 1)]"
    by (simp add: path_simps py_get2_def py_get_def)
  moreover have "steps_ok [(0, 3), (1, 3), (2, 3), (3, 2), (4, 1)]"
    by (simp add: path_simps)
  moreover have "path_cost [(0, 3), (1, 3), (2, 3), (3, 2), (4, 1)] = Fl 5435844750236188 (- 50)"
    by (simp add: path_simps calculate_cost_def fl_eval fl_tables cong: let_weak_cong)
  moreover have "flt (Fl 5435844750236188 (- 50)) (Fl 6095622095645966 (- 50))"
    by (simp add: flt_def)
  ultimately show ?thesis
    by simp
qed

end
